theory Spec2Isabelle
  imports Complex_Main
begin

section \<open>The municipal dashboard: data model\<close>

text \<open>
  The program is one script, \<^verbatim>\<open>dashds.py\<close>, whose function \<^verbatim>\<open>main\<close> loads a table of
  municipalities, resolves one of them from the sidebar inputs and compares it with its
  population bracket, its state and the whole country.  The table is a pandas DataFrame;
  it is modelled as the list of its rows, in table order.

  A cell of a numeric column holds a number, a null or, when the column arrived as text,
  a string.  A column that holds a number is a numpy column of integers or floats, whose
  null is \<^verbatim>\<open>NaN\<close>; a column that is null in every row holds \<^verbatim>\<open>None\<close> (see \<open>coluna_objeto\<close>).
  Numbers are modelled as reals: rounding of floating-point arithmetic is outside
  the model, while the infinities and the \<^verbatim>\<open>nan\<close> that a division by zero gives are values
  of their own.  The columns \<^verbatim>\<open>uf\<close> and \<^verbatim>\<open>nome_mun\<close> are text without nulls (the sidebar
  sorts their distinct values, which Python does only for values of one type);
  \<^verbatim>\<open>faixa_pop_2022\<close> is text or null; \<^verbatim>\<open>cod_mun\<close> is the text that \<^verbatim>\<open>astype(str)\<close> gives.
  Strings are ASCII, so the labels of the script are written without their accents.
  The four \<^verbatim>\<open>pop_*\<close> columns are only drawn, never aggregated, and are left out, as is
  all drawing: the model keeps the values that the script computes for its charts.
\<close>

datatype cell = Num real | Null | Text string

text \<open>The Python exceptions that the script can meet or that its specification speaks of.\<close>

datatype py_error = TypeError | IndexError | ZeroDivisionError

text \<open>The value of a numpy true division: a finite number, an infinity or \<^verbatim>\<open>nan\<close>.\<close>

datatype quot = Fin real | PosInf | NegInf | NaN

record row =
  cod_mun :: string
  uf :: string
  nome_mun :: string
  faixa_pop_2022 :: "string option"
  auto_2023 :: cell
  moto_2023 :: cell
  outr_veic_2023 :: cell
  tx_mortalidade_100mil_hab :: cell
  ibeu :: cell

type_synonym dataframe = "row list"

section \<open>Library operations the script relies on\<close>

text \<open>Python's \<^verbatim>\<open>str.strip()\<close>: leading and trailing whitespace removed (ASCII whitespace:
  codes 9 to 13 and 28 to 32).\<close>

definition isspace :: "char \<Rightarrow> bool" where
  "isspace c = (let n = (of_char c :: nat) in (9 \<le> n \<and> n \<le> 13) \<or> (28 \<le> n \<and> n \<le> 32))"

definition strip :: "string \<Rightarrow> string" where
  "strip s = rev (dropWhile isspace (rev (dropWhile isspace s)))"

text \<open>\<^verbatim>\<open>frame.iloc[0]\<close>: the first row, \<^verbatim>\<open>IndexError\<close> on an empty frame.\<close>

fun iloc0 :: "'a list \<Rightarrow> py_error + 'a" where
  "iloc0 [] = Inl IndexError"
| "iloc0 (r # rs) = Inr r"

text \<open>Comparison of a nullable text column with a scalar (\<^verbatim>\<open>df[col] == v\<close>): a null on
  either side compares unequal.\<close>

fun eq_nullable :: "string option \<Rightarrow> string option \<Rightarrow> bool" where
  "eq_nullable (Some a) (Some b) = (a = b)"
| "eq_nullable _ _ = False"

definition is_text :: "cell \<Rightarrow> bool" where
  "is_text c = (case c of Text s \<Rightarrow> True | _ \<Rightarrow> False)"

text \<open>The contribution of one cell to a sum that skips nulls.\<close>

fun addend :: "cell \<Rightarrow> real" where
  "addend (Num x) = x"
| "addend _ = 0"

text \<open>\<^verbatim>\<open>Series.sum()\<close> with its defaults (\<^verbatim>\<open>skipna=True\<close>, \<^verbatim>\<open>min_count=0\<close>): nulls are skipped
  and the sum of no values is 0.  A text cell among the operands ends in \<^verbatim>\<open>TypeError\<close>:
  Python adds no number to a string, and where every operand is a string the sum is
  their concatenation, which the total or the division that follows refuses (pandas 2,
  where the sum of a frame keeps every column).\<close>

definition series_sum :: "cell list \<Rightarrow> py_error + real" where
  "series_sum cs = (if list_ex is_text cs then Inl TypeError else Inr (sum_list (map addend cs)))"

text \<open>\<^verbatim>\<open>pd.to_numeric(column, errors='coerce')\<close> on one cell.  How pandas reads a number
  out of a string is a parameter, \<open>parse\<close>: it answers \<open>None\<close> for a string that is no
  number.\<close>

fun to_numeric :: "(string \<Rightarrow> real option) \<Rightarrow> cell \<Rightarrow> real option" where
  "to_numeric parse (Num x) = Some x"
| "to_numeric parse Null = None"
| "to_numeric parse (Text s) = parse s"

text \<open>\<^verbatim>\<open>Series.mean()\<close> of a float column: nulls are left out of the sum and of the count;
  with no value left the mean is null.\<close>

definition series_mean :: "real option list \<Rightarrow> real option" where
  "series_mean vs =
     (let xs = List.map_filter id vs
      in if xs = [] then None else Some (sum_list xs / real (length xs)))"

definition is_num :: "cell \<Rightarrow> bool" where
  "is_num c = (case c of Num x \<Rightarrow> True | _ \<Rightarrow> False)"

text \<open>
  The kind of column that pandas builds from the rows of the query.  Numbers and nulls
  with at least one number make a numpy column, and its nulls are \<^verbatim>\<open>NaN\<close>.  A column
  with no number at all (null in every row), or with a text in it, stays a column of
  Python objects, and its nulls are \<^verbatim>\<open>None\<close>.  Filtering rows keeps the kind, so the kind
  is that of the column in the whole table.
\<close>

definition coluna_objeto :: "dataframe \<Rightarrow> (row \<Rightarrow> cell) \<Rightarrow> bool" where
  "coluna_objeto df col =
     (list_ex (\<lambda>r. is_text (col r)) df \<or> \<not> list_ex (\<lambda>r. is_num (col r)) df)"

definition colunas_objeto :: "dataframe \<Rightarrow> bool list" where
  "colunas_objeto df = map (coluna_objeto df) [auto_2023, moto_2023, outr_veic_2023]"

text \<open>
  \<^verbatim>\<open>qtd / total\<close>.  \<open>obj\<close> says that \<open>qtd\<close> was read from a column of objects: a null read
  there is \<^verbatim>\<open>None\<close>, and \<^verbatim>\<open>None / total\<close> raises \<^verbatim>\<open>TypeError\<close>.  A null read from a numpy
  column is \<^verbatim>\<open>NaN\<close> and gives \<^verbatim>\<open>nan\<close>.  A number is divided as numpy divides: division by
  zero does not raise, it gives an infinity, or \<^verbatim>\<open>nan\<close> for \<^verbatim>\<open>0/0\<close>.  How the sums of a
  table that has a column of objects would be divided plays no part: with such a column
  the loop stops at its first level, the municipality's (\<open>objeto_para_no_municipio\<close>
  below).
\<close>

fun np_div :: "bool \<Rightarrow> cell \<Rightarrow> real \<Rightarrow> py_error + quot" where
  "np_div obj (Text s) t = Inl TypeError"
| "np_div obj Null t = (if obj then Inl TypeError else Inr NaN)"
| "np_div obj (Num q) t =
     Inr (if t = 0 then (if q = 0 then NaN else if 0 < q then PosInf else NegInf)
          else Fin (q / t))"

text \<open>What a share adds to a sum of shares that skips nulls, as the sums above do.\<close>

fun parcela :: "quot \<Rightarrow> real" where
  "parcela (Fin x) = x"
| "parcela _ = 0"

section \<open>The sidebar: resolving the municipality (lines 114 to 143)\<close>

text \<open>
  The three variables the sidebar leaves behind.  \<open>uf_var\<close> is the variable \<^verbatim>\<open>uf\<close>
  (the column has the name already).
\<close>

record filtros =
  municipio :: string
  uf_var :: string
  df_fil_mun :: dataframe

text \<open>The first path: the rows whose code, trimmed, is the code typed, trimmed.  The
  script wraps this filter in a \<^verbatim>\<open>try\<close>; on text it raises nothing.\<close>

definition filtro_codigo :: "dataframe \<Rightarrow> string \<Rightarrow> dataframe" where
  "filtro_codigo df cod = filter (\<lambda>r. strip (cod_mun r) = strip cod) df"

text \<open>The second path: the table is narrowed to the state chosen, and the name is then
  looked up among the rows left.\<close>

definition filtro_nome :: "dataframe \<Rightarrow> string \<Rightarrow> string \<Rightarrow> dataframe" where
  "filtro_nome df uf_box mun_box =
     (let df_filtered = filter (\<lambda>r. uf r = uf_box) df
      in filter (\<lambda>r. nome_mun r = mun_box) df_filtered)"

text \<open>
  \<open>cod\<close> is the text typed into the code field, \<open>uf_box\<close> and \<open>mun_box\<close> are what the two
  select boxes return (they are only read on the second path).  The select boxes offer
  the values present in the table; the model accepts any text, which covers them.  The
  second path is taken when no code was typed or when the code typed matched no row.
\<close>

definition sidebar :: "dataframe \<Rightarrow> string \<Rightarrow> string \<Rightarrow> string \<Rightarrow> filtros" where
  "sidebar df cod uf_box mun_box =
     (let s0 = \<lparr>municipio = ''Selecione um municipio'', uf_var = ''Selecione um estado'',
                df_fil_mun = []\<rparr>;
          s1 = (if cod \<noteq> [] then
                  (let fil = filtro_codigo df cod
                   in if fil \<noteq> [] then
                        \<lparr>municipio = nome_mun (hd fil), uf_var = uf (hd fil), df_fil_mun = fil\<rparr>
                      else s0\<lparr>df_fil_mun := fil\<rparr>)
                else s0)
      in if cod = [] \<or> df_fil_mun s1 = [] then
           \<lparr>municipio = mun_box, uf_var = uf_box, df_fil_mun = filtro_nome df uf_box mun_box\<rparr>
         else s1)"

section \<open>The comparison scopes\<close>

text \<open>The three peer subsets, as the script writes them in each comparison block:
  \<^verbatim>\<open>df[df['faixa_pop_2022'] == df_fil_mun.iloc[0]['faixa_pop_2022']]\<close>,
  \<^verbatim>\<open>df[df['uf'] == uf]\<close> and \<^verbatim>\<open>df\<close>.\<close>

definition faixa_subset :: "dataframe \<Rightarrow> row \<Rightarrow> dataframe" where
  "faixa_subset df rec = filter (\<lambda>r. eq_nullable (faixa_pop_2022 r) (faixa_pop_2022 rec)) df"

definition estado_subset :: "dataframe \<Rightarrow> filtros \<Rightarrow> dataframe" where
  "estado_subset df st = filter (\<lambda>r. uf r = uf_var st) df"

section \<open>The fleet comparison (lines 247 to 267)\<close>

text \<open>An exception leaves the enclosing computation at once: the rest runs only on a
  result.\<close>

fun and_then :: "py_error + 'a \<Rightarrow> ('a \<Rightarrow> py_error + 'b) \<Rightarrow> py_error + 'b" where
  "and_then (Inl e) f = Inl e"
| "and_then (Inr x) f = f x"

definition frota :: "row \<Rightarrow> cell list" where
  "frota r = [auto_2023 r, moto_2023 r, outr_veic_2023 r]"

text \<open>\<^verbatim>\<open>frame[['auto_2023', 'moto_2023', 'outr_veic_2023']].sum()\<close>: one sum per column.\<close>

definition df_sum :: "dataframe \<Rightarrow> py_error + cell list" where
  "df_sum sub =
     and_then (series_sum (map auto_2023 sub)) (\<lambda>a.
     and_then (series_sum (map moto_2023 sub)) (\<lambda>m.
     and_then (series_sum (map outr_veic_2023 sub)) (\<lambda>v.
       Inr [Num a, Num m, Num v])))"

definition niveis :: "dataframe \<Rightarrow> filtros \<Rightarrow> py_error + (string \<times> cell list) list" where
  "niveis df st =
     and_then (iloc0 (df_fil_mun st)) (\<lambda>rec.
     and_then (df_sum (faixa_subset df rec)) (\<lambda>fx.
     and_then (df_sum (estado_subset df st)) (\<lambda>es.
     and_then (df_sum df) (\<lambda>br.
       Inr [(''Municipio'', frota rec), (''Faixa Populacional'', fx),
            (''Estado'', es), (''Brasil'', br)]))))"

record entry =
  nivel :: string
  tipo :: string
  quantidade :: cell
  participacao :: quot

definition tipos :: "string list" where
  "tipos = [''Automoveis'', ''Motocicletas'', ''Outros Veiculos'']"

text \<open>The inner loop: one entry per vehicle type of one level.  Each value comes with
  the kind of the column it belongs to.\<close>

fun linhas :: "string \<Rightarrow> real \<Rightarrow> (string \<times> bool \<times> cell) list \<Rightarrow> py_error + entry list" where
  "linhas nv tot [] = Inr []"
| "linhas nv tot ((tp, obj, qtd) # rest) =
     and_then (np_div obj qtd tot) (\<lambda>p.
     and_then (linhas nv tot rest) (\<lambda>es.
       Inr (\<lparr>nivel = nv, tipo = tp, quantidade = qtd, participacao = p\<rparr> # es)))"

text \<open>The body of the outer loop for one level: \<^verbatim>\<open>total = valores.sum()\<close>, then the inner
  loop over \<^verbatim>\<open>zip(tipos, valores)\<close>.  \<open>objs\<close> are the kinds of the three fleet columns.\<close>

definition linhas_nivel :: "bool list \<Rightarrow> string \<Rightarrow> cell list \<Rightarrow> py_error + entry list" where
  "linhas_nivel objs nv valores =
     and_then (series_sum valores) (\<lambda>tot. linhas nv tot (zip tipos (zip objs valores)))"

fun dados_grafico :: "bool list \<Rightarrow> (string \<times> cell list) list \<Rightarrow> py_error + entry list" where
  "dados_grafico objs [] = Inr []"
| "dados_grafico objs ((nv, valores) # ns) =
     and_then (linhas_nivel objs nv valores) (\<lambda>es.
     and_then (dados_grafico objs ns) (\<lambda>rest. Inr (es @ rest)))"

text \<open>The whole block: skipped (\<open>None\<close>) when no municipality was resolved; an exception
  raised in it is not caught.\<close>

definition comparativo_frota :: "dataframe \<Rightarrow> filtros \<Rightarrow> py_error + entry list option" where
  "comparativo_frota df st =
     (if df \<noteq> [] \<and> df_fil_mun st \<noteq> [] then
        and_then (niveis df st) (\<lambda>ns.
        and_then (dados_grafico (colunas_objeto df) ns) (\<lambda>es. Inr (Some es)))
      else Inr None)"

section \<open>The mortality and well-being comparisons (lines 323 to 337 and 371 to 384)\<close>

definition of_mean :: "real option \<Rightarrow> cell" where
  "of_mean m = (case m of None \<Rightarrow> Null | Some x \<Rightarrow> Num x)"

text \<open>The mean of one column over a subset, after the column was coerced to numbers.\<close>

definition media :: "(string \<Rightarrow> real option) \<Rightarrow> (row \<Rightarrow> cell) \<Rightarrow> dataframe \<Rightarrow> cell" where
  "media parse col sub = of_mean (series_mean (map (\<lambda>r. to_numeric parse (col r)) sub))"

text \<open>
  Both blocks are the same code on two columns: the column of \<^verbatim>\<open>df\<close> is coerced, and the
  list of the four values is built.  Its first value is read from \<^verbatim>\<open>df_fil_mun\<close>, which
  was cut out of \<^verbatim>\<open>df\<close> before the coercion and so still holds the raw cell.  The block
  sits in a \<^verbatim>\<open>try\<close>: an exception is reported on the page and the script goes on
  (\<open>Inl\<close> is that report).
\<close>

definition dados_media ::
  "(string \<Rightarrow> real option) \<Rightarrow> (row \<Rightarrow> cell) \<Rightarrow> dataframe \<Rightarrow> filtros \<Rightarrow> py_error + cell list" where
  "dados_media parse col df st =
     and_then (iloc0 (df_fil_mun st)) (\<lambda>rec.
       Inr [col rec,
            media parse col (faixa_subset df rec),
            media parse col (estado_subset df st),
            media parse col df])"

definition dados_mortalidade ::
  "(string \<Rightarrow> real option) \<Rightarrow> dataframe \<Rightarrow> filtros \<Rightarrow> py_error + cell list" where
  "dados_mortalidade parse df st = dados_media parse tx_mortalidade_100mil_hab df st"

definition dados_ibeu ::
  "(string \<Rightarrow> real option) \<Rightarrow> dataframe \<Rightarrow> filtros \<Rightarrow> py_error + cell list" where
  "dados_ibeu parse df st = dados_media parse ibeu df st"

section \<open>The page\<close>

record pagina =
  titulo :: string
  frota_comparada :: "entry list option"
  taxa :: "py_error + cell list"
  bem_estar :: "py_error + cell list"

text \<open>
  \<^verbatim>\<open>main\<close>: an empty table ends the run with a message (\<open>Inr None\<close>); an exception of the
  fleet block ends the script (\<open>Inl\<close>); otherwise the page holds the three comparisons.
\<close>

definition main :: "(string \<Rightarrow> real option) \<Rightarrow> dataframe \<Rightarrow> string \<Rightarrow> string \<Rightarrow> string
    \<Rightarrow> py_error + pagina option" where
  "main parse df cod uf_box mun_box =
     (if df = [] then Inr None
      else
        (let st = sidebar df cod uf_box mun_box
         in and_then (comparativo_frota df st) (\<lambda>cmp.
              Inr (Some \<lparr>titulo = ''Dados Municipais - '' @ municipio st @ ''/'' @ uf_var st,
                         frota_comparada = cmp,
                         taxa = dados_mortalidade parse df st,
                         bem_estar = dados_ibeu parse df st\<rparr>))))"

section \<open>Example tables\<close>

text \<open>The three municipalities of the specification's scenario; the two rate columns
  are not part of it and are null.\<close>

definition m001 :: row where
  "m001 = \<lparr>cod_mun = ''001'', uf = ''SP'', nome_mun = ''A'', faixa_pop_2022 = Some ''small'',
            auto_2023 = Num 100, moto_2023 = Num 50, outr_veic_2023 = Num 10,
            tx_mortalidade_100mil_hab = Null, ibeu = Null\<rparr>"

definition m002 :: row where
  "m002 = \<lparr>cod_mun = ''002'', uf = ''SP'', nome_mun = ''B'', faixa_pop_2022 = Some ''small'',
            auto_2023 = Num 200, moto_2023 = Num 0, outr_veic_2023 = Num 0,
            tx_mortalidade_100mil_hab = Null, ibeu = Null\<rparr>"

definition m003 :: row where
  "m003 = \<lparr>cod_mun = ''003'', uf = ''RJ'', nome_mun = ''C'', faixa_pop_2022 = Some ''large'',
            auto_2023 = Num 300, moto_2023 = Num 100, outr_veic_2023 = Num 50,
            tx_mortalidade_100mil_hab = Null, ibeu = Null\<rparr>"

definition tabela_exemplo :: dataframe where
  "tabela_exemplo = [m001, m002, m003]"

text \<open>Three municipalities of one state and one bracket whose car counts and mortality
  rates are 10, null and 20.\<close>

definition v10 :: row where
  "v10 = \<lparr>cod_mun = ''10'', uf = ''MG'', nome_mun = ''X'', faixa_pop_2022 = Some ''medium'',
           auto_2023 = Num 10, moto_2023 = Num 1, outr_veic_2023 = Num 1,
           tx_mortalidade_100mil_hab = Num 10, ibeu = Num 10\<rparr>"

definition vnull :: row where
  "vnull = \<lparr>cod_mun = ''11'', uf = ''MG'', nome_mun = ''Y'', faixa_pop_2022 = Some ''medium'',
             auto_2023 = Null, moto_2023 = Num 1, outr_veic_2023 = Num 1,
             tx_mortalidade_100mil_hab = Null, ibeu = Null\<rparr>"

definition v20 :: row where
  "v20 = \<lparr>cod_mun = ''12'', uf = ''MG'', nome_mun = ''Z'', faixa_pop_2022 = Some ''medium'',
           auto_2023 = Num 20, moto_2023 = Num 1, outr_veic_2023 = Num 1,
           tx_mortalidade_100mil_hab = Num 20, ibeu = Num 20\<rparr>"

definition tabela_10_nulo_20 :: dataframe where
  "tabela_10_nulo_20 = [v10, vnull, v20]"

text \<open>Two municipalities that carry the same code (one with a trailing blank), and two
  municipalities of one state that carry the same name.\<close>

definition d1 :: row where
  "d1 = \<lparr>cod_mun = ''001'', uf = ''SP'', nome_mun = ''A'', faixa_pop_2022 = Some ''small'',
          auto_2023 = Num 100, moto_2023 = Num 50, outr_veic_2023 = Num 10,
          tx_mortalidade_100mil_hab = Num 4, ibeu = Num 1\<rparr>"

definition d2 :: row where
  "d2 = \<lparr>cod_mun = ''001 '', uf = ''RJ'', nome_mun = ''B'', faixa_pop_2022 = Some ''large'',
          auto_2023 = Num 300, moto_2023 = Num 100, outr_veic_2023 = Num 50,
          tx_mortalidade_100mil_hab = Num 8, ibeu = Num 0\<rparr>"

definition tabela_cod_repetido :: dataframe where
  "tabela_cod_repetido = [d1, d2]"

definition n1 :: row where
  "n1 = \<lparr>cod_mun = ''101'', uf = ''SP'', nome_mun = ''A'', faixa_pop_2022 = Some ''small'',
          auto_2023 = Num 100, moto_2023 = Num 50, outr_veic_2023 = Num 10,
          tx_mortalidade_100mil_hab = Num 4, ibeu = Num 1\<rparr>"

definition n2 :: row where
  "n2 = \<lparr>cod_mun = ''102'', uf = ''SP'', nome_mun = ''A'', faixa_pop_2022 = Some ''large'',
          auto_2023 = Num 300, moto_2023 = Num 100, outr_veic_2023 = Num 50,
          tx_mortalidade_100mil_hab = Num 8, ibeu = Num 0\<rparr>"

definition tabela_nome_repetido :: dataframe where
  "tabela_nome_repetido = [n1, n2]"

text \<open>A municipality with no bracket beside one that has a bracket.\<close>

definition s1 :: row where
  "s1 = \<lparr>cod_mun = ''201'', uf = ''SP'', nome_mun = ''A'', faixa_pop_2022 = None,
          auto_2023 = Num 100, moto_2023 = Num 50, outr_veic_2023 = Num 10,
          tx_mortalidade_100mil_hab = Num 4, ibeu = Num 1\<rparr>"

definition s2 :: row where
  "s2 = \<lparr>cod_mun = ''202'', uf = ''SP'', nome_mun = ''B'', faixa_pop_2022 = Some ''small'',
          auto_2023 = Num 300, moto_2023 = Num 100, outr_veic_2023 = Num 50,
          tx_mortalidade_100mil_hab = Num 8, ibeu = Num 0\<rparr>"

definition tabela_sem_faixa :: dataframe where
  "tabela_sem_faixa = [s1, s2]"

text \<open>A municipality whose three fleet cells are null.\<close>

definition s3 :: row where
  "s3 = \<lparr>cod_mun = ''203'', uf = ''SP'', nome_mun = ''C'', faixa_pop_2022 = Some ''small'',
          auto_2023 = Null, moto_2023 = Null, outr_veic_2023 = Null,
          tx_mortalidade_100mil_hab = Null, ibeu = Null\<rparr>"

text \<open>A table whose three fleet columns are null in every row, and a table whose car
  column is null in every row beside two columns of numbers.\<close>

definition tabela_frota_nula :: dataframe where
  "tabela_frota_nula = [s3]"

definition s4 :: row where
  "s4 = \<lparr>cod_mun = ''204'', uf = ''SP'', nome_mun = ''D'', faixa_pop_2022 = Some ''small'',
          auto_2023 = Null, moto_2023 = Num 50, outr_veic_2023 = Num 10,
          tx_mortalidade_100mil_hab = Num 4, ibeu = Num 1\<rparr>"

definition tabela_coluna_nula :: dataframe where
  "tabela_coluna_nula = [s4]"

text \<open>Text in a fleet column, and text in the mortality column.\<close>

definition t1 :: row where
  "t1 = \<lparr>cod_mun = ''401'', uf = ''SP'', nome_mun = ''A'', faixa_pop_2022 = Some ''small'',
          auto_2023 = Text ''abc'', moto_2023 = Num 50, outr_veic_2023 = Num 10,
          tx_mortalidade_100mil_hab = Num 4, ibeu = Num 1\<rparr>"

definition tabela_texto_frota :: dataframe where
  "tabela_texto_frota = [t1]"

definition t2 :: row where
  "t2 = \<lparr>cod_mun = ''402'', uf = ''SP'', nome_mun = ''A'', faixa_pop_2022 = Some ''small'',
          auto_2023 = Num 100, moto_2023 = Num 50, outr_veic_2023 = Num 10,
          tx_mortalidade_100mil_hab = Text ''n/d'', ibeu = Num 1\<rparr>"

definition t3 :: row where
  "t3 = \<lparr>cod_mun = ''403'', uf = ''SP'', nome_mun = ''B'', faixa_pop_2022 = Some ''small'',
          auto_2023 = Num 300, moto_2023 = Num 100, outr_veic_2023 = Num 50,
          tx_mortalidade_100mil_hab = Num 8, ibeu = Num 0\<rparr>"

definition tabela_texto_taxa :: dataframe where
  "tabela_texto_taxa = [t2, t3]"

section \<open>Evaluation rules and basic facts\<close>

lemmas sidebar_eval = sidebar_def filtro_codigo_def filtro_nome_def strip_def isspace_def

lemmas frota_eval = comparativo_frota_def niveis_def df_sum_def series_sum_def is_text_def
  frota_def faixa_subset_def estado_subset_def linhas_nivel_def tipos_def
  colunas_objeto_def coluna_objeto_def is_num_def

lemmas media_eval = dados_mortalidade_def dados_ibeu_def dados_media_def media_def
  series_mean_def of_mean_def List.map_filter_def

lemmas exemplo_defs = tabela_exemplo_def m001_def m002_def m003_def

lemmas t10_defs = tabela_10_nulo_20_def v10_def vnull_def v20_def

text \<open>The two paths of the sidebar.\<close>

lemma sidebar_codigo:
  assumes "cod \<noteq> []" and "filtro_codigo df cod = r # rs"
  shows "sidebar df cod u m = \<lparr>municipio = nome_mun r, uf_var = uf r, df_fil_mun = r # rs\<rparr>"
  using assms by (simp add: sidebar_def)

lemma sidebar_nome:
  assumes "cod = [] \<or> filtro_codigo df cod = []"
  shows "sidebar df cod u m = \<lparr>municipio = m, uf_var = u, df_fil_mun = filtro_nome df u m\<rparr>"
  using assms by (auto simp add: sidebar_def Let_def)

lemma filtro_nome_mem:
  "x \<in> set (filtro_nome df u m) \<longleftrightarrow> x \<in> set df \<and> uf x = u \<and> nome_mun x = m"
  by (auto simp add: filtro_nome_def)

lemma two_or_more: "2 \<le> length xs \<Longrightarrow> \<exists>x y ys. xs = x # y # ys"
  by (cases xs; cases "tl xs") auto

lemma sidebar_002:
  "sidebar tabela_exemplo ''002'' u m = \<lparr>municipio = ''B'', uf_var = ''SP'', df_fil_mun = [m002]\<rparr>"
  by (simp add: sidebar_eval exemplo_defs)

lemma filtro_cod_repetido: "filtro_codigo tabela_cod_repetido ''001'' = [d1, d2]"
  by (simp add: filtro_codigo_def strip_def isspace_def tabela_cod_repetido_def d1_def d2_def)

lemma sidebar_cases:
  obtains (codigo) r rs where "cod \<noteq> []" "filtro_codigo df cod = r # rs"
      "sidebar df cod u m = \<lparr>municipio = nome_mun r, uf_var = uf r, df_fil_mun = r # rs\<rparr>"
  | (nome) "cod = [] \<or> filtro_codigo df cod = []"
      "sidebar df cod u m = \<lparr>municipio = m, uf_var = u, df_fil_mun = filtro_nome df u m\<rparr>"
proof (cases "cod = [] \<or> filtro_codigo df cod = []")
  case True
  then show ?thesis using nome sidebar_nome by blast
next
  case False
  then obtain r rs where "filtro_codigo df cod = r # rs"
    by (cases "filtro_codigo df cod") auto
  with False show ?thesis using codigo sidebar_codigo by blast
qed

text \<open>Whatever the path, the municipality resolved is a row of the table and the variable
  \<^verbatim>\<open>uf\<close> holds its state.\<close>

lemma sidebar_resolvido:
  assumes "iloc0 (df_fil_mun (sidebar df cod u m)) = Inr rec"
  shows "rec \<in> set df \<and> uf_var (sidebar df cod u m) = uf rec"
proof (cases rule: sidebar_cases [of cod df u m])
  case (codigo r rs)
  from codigo(2) have "r \<in> set (filtro_codigo df cod)" by simp
  then have "r \<in> set df" by (simp add: filtro_codigo_def)
  with assms codigo(3) show ?thesis by simp
next
  case nome
  with assms obtain xs where "filtro_nome df u m = rec # xs"
    by (cases "filtro_nome df u m") auto
  then have "rec \<in> set (filtro_nome df u m)" by simp
  then have "rec \<in> set df \<and> uf rec = u" by (simp only: filtro_nome_mem)
  with nome(2) show ?thesis by simp
qed

lemma eq_nullable_Some: "eq_nullable x (Some b) = (x = Some b)"
  by (cases x) auto

lemma eq_nullable_None: "eq_nullable x None = False"
  by (cases x) auto

lemma faixa_subset_cases:
  "faixa_subset df rec =
     (case faixa_pop_2022 rec of None \<Rightarrow> []
      | Some b \<Rightarrow> filter (\<lambda>r. faixa_pop_2022 r = Some b) df)"
  by (simp add: faixa_subset_def eq_nullable_Some eq_nullable_None split: option.splits)



lemma sel_nome_repetido: "filtro_nome tabela_nome_repetido ''SP'' ''A'' = [n1, n2]"
  by (simp add: filtro_nome_def tabela_nome_repetido_def n1_def n2_def)

lemmas niveis_eval = niveis_def df_sum_def series_sum_def is_text_def frota_def
  faixa_subset_def estado_subset_def

text \<open>Results and exceptions of the steps of the fleet comparison.\<close>

lemma and_then_Inr:
  "and_then m f = Inr y \<longleftrightarrow> (\<exists>x. m = Inr x \<and> f x = Inr y)"
  by (cases m) auto

lemma and_then_Inl:
  "and_then m f = Inl e \<longleftrightarrow> m = Inl e \<or> (\<exists>x. m = Inr x \<and> f x = Inl e)"
  by (cases m) auto

lemma series_sum_Inr:
  "series_sum cs = Inr tot \<longleftrightarrow> \<not> list_ex is_text cs \<and> tot = sum_list (map addend cs)"
  by (auto simp add: series_sum_def)

lemma series_sum_nulos:
  assumes "\<forall>c\<in>set cs. c = Null"
  shows "series_sum cs = Inr 0"
proof -
  from assms have "\<not> list_ex is_text cs"
    by (auto simp add: list_ex_iff is_text_def)
  moreover from assms have "sum_list (map addend cs) = 0"
    by (induction cs) auto
  ultimately show ?thesis by (simp add: series_sum_def)
qed

lemma series_mean_None: "series_mean (xs @ None # ys) = series_mean (xs @ ys)"
  by (simp add: series_mean_def List.map_filter_def)

lemma df_sum_Inr:
  "df_sum sub = Inr vs \<Longrightarrow> \<exists>a b c. vs = [Num a, Num b, Num c]"
  by (auto simp add: df_sum_def and_then_Inr)

lemma niveis_tres:
  assumes "niveis df st = Inr ns" and "(nv, valores) \<in> set ns"
  shows "\<exists>a b c. valores = [a, b, c]"
  using assms by (auto simp add: niveis_def and_then_Inr frota_def dest!: df_sum_Inr)

lemma colunas_objeto_tres:
  "colunas_objeto df =
     [coluna_objeto df auto_2023, coluna_objeto df moto_2023, coluna_objeto df outr_veic_2023]"
  by (simp add: colunas_objeto_def)

lemma linhas_nivel_tres:
  "linhas_nivel [oa, ob, oc] nv [a, b, c] = Inr es \<longleftrightarrow>
     (\<exists>tot pa pb pc. series_sum [a, b, c] = Inr tot
        \<and> np_div oa a tot = Inr pa \<and> np_div ob b tot = Inr pb \<and> np_div oc c tot = Inr pc
        \<and> es = [\<lparr>nivel = nv, tipo = ''Automoveis'', quantidade = a, participacao = pa\<rparr>,
                \<lparr>nivel = nv, tipo = ''Motocicletas'', quantidade = b, participacao = pb\<rparr>,
                \<lparr>nivel = nv, tipo = ''Outros Veiculos'', quantidade = c, participacao = pc\<rparr>])"
  by (auto simp add: linhas_nivel_def tipos_def and_then_Inr)

text \<open>The only exception the fleet comparison can end in is \<^verbatim>\<open>TypeError\<close>.\<close>

lemma series_sum_erro: "series_sum cs = Inl e \<Longrightarrow> e = TypeError"
  by (auto simp add: series_sum_def split: if_splits)

lemma np_div_erro: "np_div obj q tot = Inl e \<Longrightarrow> e = TypeError"
  by (cases q) (auto split: if_splits)

lemma linhas_erro: "linhas nv tot ps = Inl e \<Longrightarrow> e = TypeError"
  by (induction nv tot ps rule: linhas.induct) (auto simp add: and_then_Inl dest: np_div_erro)

lemma linhas_nivel_erro: "linhas_nivel objs nv valores = Inl e \<Longrightarrow> e = TypeError"
  by (auto simp add: linhas_nivel_def and_then_Inl dest: series_sum_erro linhas_erro)

lemma dados_grafico_erro: "dados_grafico objs ns = Inl e \<Longrightarrow> e = TypeError"
  by (induction objs ns rule: dados_grafico.induct)
     (auto simp add: and_then_Inl dest: linhas_nivel_erro)

lemma df_sum_erro: "df_sum sub = Inl e \<Longrightarrow> e = TypeError"
  by (auto simp add: df_sum_def and_then_Inl dest: series_sum_erro)

lemma comparativo_frota_erro:
  assumes "comparativo_frota df st = Inl e"
  shows "e = TypeError"
proof -
  from assms have ne: "df_fil_mun st \<noteq> []"
    and r: "and_then (niveis df st)
              (\<lambda>ns. and_then (dados_grafico (colunas_objeto df) ns) (\<lambda>es. Inr (Some es))) = Inl e"
    by (auto simp add: comparativo_frota_def split: if_splits)
  from ne obtain x xs where "df_fil_mun st = x # xs"
    by (cases "df_fil_mun st") auto
  then have "niveis df st = Inl e \<Longrightarrow> e = TypeError"
    by (auto simp add: niveis_def and_then_Inl dest: df_sum_erro)
  with r show ?thesis
    by (auto simp add: and_then_Inl dest: dados_grafico_erro)
qed

lemma comparativo_frota_sem_divisao_por_zero:
  "comparativo_frota df st \<noteq> Inl ZeroDivisionError"
  using comparativo_frota_erro by fastforce

text \<open>The value of one share.\<close>

lemma np_div_valor:
  assumes "np_div obj q tot = Inr p"
  shows "\<forall>x. q = Num x \<and> tot \<noteq> 0 \<longrightarrow> p = Fin (x / tot)"
    and "q = Null \<longrightarrow> p = NaN \<and> \<not> obj"
    and "tot = 0 \<and> q = Num 0 \<longrightarrow> p = NaN"
  using assms by (cases q; auto split: if_splits)+

lemma np_div_sem_sobra:
  assumes "np_div obj q 0 = Inr p" and "addend q = 0"
  shows "p = NaN"
  using assms by (cases q) (auto split: if_splits)

lemma np_div_parcela:
  assumes "np_div obj q tot = Inr p" and "tot \<noteq> 0"
  shows "parcela p = addend q / tot"
    and "p = NaN \<longleftrightarrow> q = Null"
    and "q \<noteq> Null \<longrightarrow> (\<exists>x. p = Fin x)"
  using assms by (cases q; auto split: if_splits)+

lemma np_div_numpy:
  assumes "\<not> is_text q"
  shows "\<exists>p. np_div False q tot = Inr p"
  using assms by (cases q) (auto simp add: is_text_def)

lemma addend_zero3:
  assumes "0 \<le> addend a" "0 \<le> addend b" "0 \<le> addend c"
      and "addend a + addend b + addend c = 0"
  shows "addend a = 0 \<and> addend b = 0 \<and> addend c = 0"
  using assms by linarith

text \<open>
  A column of objects holds a text somewhere or a null in every row.  So when the fleet
  block runs to its end for a municipality of the table, the three fleet columns are
  numpy columns: a text stops the sums, and a column that is null in every row gives the
  municipality a \<^verbatim>\<open>None\<close>, which stops the division at the first level.
\<close>

lemma sem_texto_na_coluna:
  assumes "series_sum (map col df) = Inr t" and "r \<in> set df"
  shows "\<not> is_text (col r)"
  using assms by (auto simp add: series_sum_Inr list_ex_iff)

lemma coluna_objeto_nula:
  assumes "coluna_objeto df col" and "series_sum (map col df) = Inr t" and "rec \<in> set df"
  shows "col rec = Null"
proof -
  from assms(2) have nt: "\<forall>r\<in>set df. \<not> is_text (col r)"
    by (auto simp add: series_sum_Inr list_ex_iff)
  with assms(1) have "\<forall>r\<in>set df. \<not> is_num (col r)"
    by (auto simp add: coluna_objeto_def list_ex_iff)
  with nt assms(3) show ?thesis
    by (cases "col rec") (auto simp add: is_num_def is_text_def)
qed

lemma linhas_municipio_so_numpy:
  assumes "linhas_nivel (colunas_objeto df) nv (frota rec) = Inr es1"
      and "df_sum df = Inr br" and "rec \<in> set df"
  shows "colunas_objeto df = [False, False, False]"
proof -
  from assms(2) obtain ta tm tv where
    sa: "series_sum (map auto_2023 df) = Inr ta" and
    sm: "series_sum (map moto_2023 df) = Inr tm" and
    sv: "series_sum (map outr_veic_2023 df) = Inr tv"
    by (auto simp add: df_sum_def and_then_Inr)
  from assms(1) obtain tot pa pb pc where
    pa: "np_div (coluna_objeto df auto_2023) (auto_2023 rec) tot = Inr pa" and
    pb: "np_div (coluna_objeto df moto_2023) (moto_2023 rec) tot = Inr pb" and
    pc: "np_div (coluna_objeto df outr_veic_2023) (outr_veic_2023 rec) tot = Inr pc"
    by (auto simp add: colunas_objeto_tres frota_def linhas_nivel_tres)
  have "\<not> coluna_objeto df auto_2023"
    using coluna_objeto_nula [OF _ sa assms(3)] pa by auto
  moreover have "\<not> coluna_objeto df moto_2023"
    using coluna_objeto_nula [OF _ sm assms(3)] pb by auto
  moreover have "\<not> coluna_objeto df outr_veic_2023"
    using coluna_objeto_nula [OF _ sv assms(3)] pc by auto
  ultimately show ?thesis by (simp add: colunas_objeto_tres)
qed

lemma objeto_para_no_municipio:
  assumes "colunas_objeto df \<noteq> [False, False, False]"
      and "df_sum df = Inr br" and "rec \<in> set df"
  shows "linhas_nivel (colunas_objeto df) nv (frota rec) = Inl TypeError"
proof (cases "linhas_nivel (colunas_objeto df) nv (frota rec)")
  case (Inl e)
  then show ?thesis using linhas_nivel_erro by blast
next
  case (Inr es1)
  with assms show ?thesis using linhas_municipio_so_numpy by blast
qed

lemma comparativo_frota_so_numpy:
  assumes "comparativo_frota df st = Inr (Some es)"
      and "iloc0 (df_fil_mun st) = Inr rec" and "rec \<in> set df"
  shows "colunas_objeto df = [False, False, False]"
proof -
  from assms(1) obtain ns where nv: "niveis df st = Inr ns"
    and dg: "dados_grafico (colunas_objeto df) ns = Inr es"
    by (auto simp add: comparativo_frota_def and_then_Inr split: if_splits)
  from nv assms(2) obtain fx et br where br: "df_sum df = Inr br"
    and ns: "ns = [(''Municipio'', frota rec), (''Faixa Populacional'', fx),
                   (''Estado'', et), (''Brasil'', br)]"
    by (auto simp add: niveis_def and_then_Inr)
  from dg ns obtain es1 where
    "linhas_nivel (colunas_objeto df) ''Municipio'' (frota rec) = Inr es1"
    by (auto simp add: and_then_Inr)
  with br assms(3) show ?thesis using linhas_municipio_so_numpy by blast
qed

text \<open>And when the three fleet columns are numpy columns, the fleet block runs to its
  end for every municipality of the table.\<close>

lemma series_sum_sem_texto:
  assumes "\<forall>r\<in>set sub. \<not> is_text (col r)"
  shows "\<exists>t. series_sum (map col sub) = Inr t"
  using assms by (auto simp add: series_sum_def list_ex_iff)

lemma df_sum_sem_texto:
  assumes "\<forall>r\<in>set sub. \<not> is_text (auto_2023 r) \<and> \<not> is_text (moto_2023 r)
             \<and> \<not> is_text (outr_veic_2023 r)"
  shows "\<exists>a b c. df_sum sub = Inr [Num a, Num b, Num c]"
proof -
  from assms obtain a where "series_sum (map auto_2023 sub) = Inr a"
    using series_sum_sem_texto [of sub auto_2023] by auto
  moreover from assms obtain b where "series_sum (map moto_2023 sub) = Inr b"
    using series_sum_sem_texto [of sub moto_2023] by auto
  moreover from assms obtain c where "series_sum (map outr_veic_2023 sub) = Inr c"
    using series_sum_sem_texto [of sub outr_veic_2023] by auto
  ultimately show ?thesis by (simp add: df_sum_def)
qed

lemma linhas_nivel_numpy:
  assumes "\<not> is_text a" and "\<not> is_text b" and "\<not> is_text c"
  shows "\<exists>es. linhas_nivel [False, False, False] nv [a, b, c] = Inr es"
proof -
  from assms obtain tot where "series_sum [a, b, c] = Inr tot"
    by (auto simp add: series_sum_def)
  moreover from assms obtain pa pb pc where "np_div False a tot = Inr pa"
    and "np_div False b tot = Inr pb" and "np_div False c tot = Inr pc"
    using np_div_numpy by meson
  ultimately show ?thesis by (simp add: linhas_nivel_tres)
qed

lemma comparativo_frota_numpy:
  assumes "colunas_objeto df = [False, False, False]"
      and "iloc0 (df_fil_mun st) = Inr rec" and "rec \<in> set df"
  shows "\<exists>es. comparativo_frota df st = Inr (Some es)"
proof -
  from assms(1) have nt: "\<forall>r\<in>set df. \<not> is_text (auto_2023 r) \<and> \<not> is_text (moto_2023 r)
             \<and> \<not> is_text (outr_veic_2023 r)"
    by (auto simp add: colunas_objeto_tres coluna_objeto_def list_ex_iff)
  then have "\<forall>r\<in>set (faixa_subset df rec). \<not> is_text (auto_2023 r) \<and> \<not> is_text (moto_2023 r)
             \<and> \<not> is_text (outr_veic_2023 r)"
    and "\<forall>r\<in>set (estado_subset df st). \<not> is_text (auto_2023 r) \<and> \<not> is_text (moto_2023 r)
             \<and> \<not> is_text (outr_veic_2023 r)"
    by (auto simp add: faixa_subset_def estado_subset_def)
  then obtain f1 f2 f3 e1 e2 e3 where
    fx: "df_sum (faixa_subset df rec) = Inr [Num f1, Num f2, Num f3]" and
    et: "df_sum (estado_subset df st) = Inr [Num e1, Num e2, Num e3]"
    using df_sum_sem_texto by meson
  from nt obtain b1 b2 b3 where br: "df_sum df = Inr [Num b1, Num b2, Num b3]"
    using df_sum_sem_texto by meson
  from fx et br assms(2) have nv: "niveis df st =
      Inr [(''Municipio'', frota rec), (''Faixa Populacional'', [Num f1, Num f2, Num f3]),
           (''Estado'', [Num e1, Num e2, Num e3]), (''Brasil'', [Num b1, Num b2, Num b3])]"
    by (simp add: niveis_def)
  from nt assms(3) obtain l1 where
    l1: "linhas_nivel [False, False, False] ''Municipio'' (frota rec) = Inr l1"
    using linhas_nivel_numpy [of "auto_2023 rec" "moto_2023 rec" "outr_veic_2023 rec"]
    by (auto simp add: frota_def)
  obtain l2 where
    l2: "linhas_nivel [False, False, False] ''Faixa Populacional'' [Num f1, Num f2, Num f3]
           = Inr l2"
    using linhas_nivel_numpy [of "Num f1" "Num f2" "Num f3"] by (auto simp add: is_text_def)
  obtain l3 where
    l3: "linhas_nivel [False, False, False] ''Estado'' [Num e1, Num e2, Num e3] = Inr l3"
    using linhas_nivel_numpy [of "Num e1" "Num e2" "Num e3"] by (auto simp add: is_text_def)
  obtain l4 where
    l4: "linhas_nivel [False, False, False] ''Brasil'' [Num b1, Num b2, Num b3] = Inr l4"
    using linhas_nivel_numpy [of "Num b1" "Num b2" "Num b3"] by (auto simp add: is_text_def)
  from assms(2) have "df_fil_mun st \<noteq> []" by auto
  moreover from assms(3) have "df \<noteq> []" by auto
  ultimately show ?thesis
    by (simp add: comparativo_frota_def nv assms(1) l1 l2 l3 l4)
qed

text \<open>The example tables, evaluated.\<close>

lemma sidebar_201:
  "sidebar tabela_sem_faixa ''201'' u m =
     \<lparr>municipio = ''A'', uf_var = ''SP'', df_fil_mun = [s1]\<rparr>"
  by (simp add: sidebar_eval tabela_sem_faixa_def s1_def s2_def)

lemma niveis_sem_faixa:
  "niveis tabela_sem_faixa (sidebar tabela_sem_faixa ''201'' u m) =
     Inr [(''Municipio'', [Num 100, Num 50, Num 10]),
          (''Faixa Populacional'', [Num 0, Num 0, Num 0]),
          (''Estado'', [Num 400, Num 150, Num 60]), (''Brasil'', [Num 400, Num 150, Num 60])]"
  by (simp add: sidebar_201) (simp add: niveis_eval tabela_sem_faixa_def s1_def s2_def)

lemma niveis_exemplo:
  "niveis tabela_exemplo (sidebar tabela_exemplo ''002'' u m) =
     Inr [(''Municipio'', [Num 200, Num 0, Num 0]),
          (''Faixa Populacional'', [Num 300, Num 50, Num 10]),
          (''Estado'', [Num 300, Num 50, Num 10]), (''Brasil'', [Num 600, Num 150, Num 60])]"
  by (simp add: sidebar_002) (simp add: niveis_eval exemplo_defs)

lemma linhas_faixa_vazia:
  "linhas_nivel [oa, ob, oc] ''Faixa Populacional'' [Num 0, Num 0, Num 0] = Inr
     [\<lparr>nivel = ''Faixa Populacional'', tipo = ''Automoveis'', quantidade = Num 0,
       participacao = NaN\<rparr>,
      \<lparr>nivel = ''Faixa Populacional'', tipo = ''Motocicletas'', quantidade = Num 0,
       participacao = NaN\<rparr>,
      \<lparr>nivel = ''Faixa Populacional'', tipo = ''Outros Veiculos'', quantidade = Num 0,
       participacao = NaN\<rparr>]"
  by (simp add: linhas_nivel_def series_sum_def is_text_def tipos_def)

lemma sidebar_203:
  "sidebar tabela_frota_nula ''203'' u m =
     \<lparr>municipio = ''C'', uf_var = ''SP'', df_fil_mun = [s3]\<rparr>"
  by (simp add: sidebar_eval tabela_frota_nula_def s3_def)

lemma sidebar_204:
  "sidebar tabela_coluna_nula ''204'' u m =
     \<lparr>municipio = ''D'', uf_var = ''SP'', df_fil_mun = [s4]\<rparr>"
  by (simp add: sidebar_eval tabela_coluna_nula_def s4_def)

section \<open>Resolution by code\<close>

text \<open>
  Claim C1 says that a code carried by two or more municipalities makes the resolution
  fail with an ambiguity.  The script has no such outcome.  In the table of \<open>d1\<close> and \<open>d2\<close>
  both rows carry the code 001 once trimmed, and the sidebar resolves the code to the
  first of them: the page is built for A/SP.
\<close>

theorem codigo_repetido_counterexample:
  "length (filter (\<lambda>r. strip (cod_mun r) = ''001'') tabela_cod_repetido) = 2
   \<and> iloc0 (df_fil_mun (sidebar tabela_cod_repetido ''001'' ''RJ'' ''B'')) = Inr d1
   \<and> (\<exists>pg. main (\<lambda>s. None) tabela_cod_repetido ''001'' ''RJ'' ''B'' = Inr (Some pg)
          \<and> titulo pg = ''Dados Municipais - A/SP'')"
proof -
  have sb: "sidebar tabela_cod_repetido ''001'' ''RJ'' ''B'' =
      \<lparr>municipio = ''A'', uf_var = ''SP'', df_fil_mun = [d1, d2]\<rparr>"
    by (simp add: sidebar_codigo [OF _ filtro_cod_repetido] d1_def)
  have "length (filter (\<lambda>r. strip (cod_mun r) = ''001'') tabela_cod_repetido) = 2"
    by (simp add: strip_def isspace_def tabela_cod_repetido_def d1_def d2_def)
  moreover have "iloc0 (df_fil_mun (sidebar tabela_cod_repetido ''001'' ''RJ'' ''B'')) = Inr d1"
    by (simp add: sb)
  moreover have "\<exists>pg. main (\<lambda>s. None) tabela_cod_repetido ''001'' ''RJ'' ''B'' = Inr (Some pg)
          \<and> titulo pg = ''Dados Municipais - A/SP''"
  proof -
    obtain es where "comparativo_frota tabela_cod_repetido
        \<lparr>municipio = ''A'', uf_var = ''SP'', df_fil_mun = [d1, d2]\<rparr> = Inr (Some es)"
      by (simp add: frota_eval tabela_cod_repetido_def d1_def d2_def)
    moreover have "tabela_cod_repetido \<noteq> []"
      by (simp add: tabela_cod_repetido_def)
    ultimately show ?thesis
      by (simp add: main_def Let_def sb)
  qed
  ultimately show ?thesis by blast
qed

text \<open>
  Claim C1, amended: when the code typed is not empty and two or more rows carry it (both
  sides trimmed), the sidebar keeps all of them in table order and the municipality it
  works with is the first one: its name and state fill the title, and \<^verbatim>\<open>iloc[0]\<close> reads it.
\<close>

theorem codigo_repetido_usa_o_primeiro:
  assumes "cod \<noteq> []" and "2 \<le> length (filtro_codigo df cod)"
  shows "\<exists>r rs. filtro_codigo df cod = r # rs \<and> rs \<noteq> []
           \<and> sidebar df cod u m = \<lparr>municipio = nome_mun r, uf_var = uf r, df_fil_mun = r # rs\<rparr>
           \<and> iloc0 (df_fil_mun (sidebar df cod u m)) = Inr r"
proof -
  from assms(2) obtain r r' rs where fil: "filtro_codigo df cod = r # r' # rs"
    using two_or_more by blast
  with assms(1) have "sidebar df cod u m =
      \<lparr>municipio = nome_mun r, uf_var = uf r, df_fil_mun = r # r' # rs\<rparr>"
    by (rule sidebar_codigo)
  with fil show ?thesis by simp
qed

theorem codigo_repetido_usa_o_primeiro_witness:
  "''001'' \<noteq> [] \<and> 2 \<le> length (filtro_codigo tabela_cod_repetido ''001'')
   \<and> sidebar tabela_cod_repetido ''001'' ''RJ'' ''B'' =
        \<lparr>municipio = ''A'', uf_var = ''SP'', df_fil_mun = [d1, d2]\<rparr>
   \<and> iloc0 (df_fil_mun (sidebar tabela_cod_repetido ''001'' ''RJ'' ''B'')) = Inr d1"
proof -
  have h1: "''001'' \<noteq> []" by simp
  have h2: "2 \<le> length (filtro_codigo tabela_cod_repetido ''001'')"
    by (simp add: filtro_cod_repetido)
  from codigo_repetido_usa_o_primeiro [OF h1 h2, of "''RJ''" "''B''"]
  show ?thesis using h2 by (auto simp add: filtro_cod_repetido d1_def)
qed

section \<open>Resolution by state and name\<close>

text \<open>
  Claim C7: when the code field is empty or its code matches no row, and some row \<open>r\<close> of
  the table has the state and the name chosen, the sidebar takes the second path: the
  table is narrowed to the state, the name is matched among the rows left, and the
  municipality resolved is the first match, a row of the table with that state and name.
  It is \<open>r\<close> itself when no other row has them.
\<close>

theorem fallback_por_nome:
  assumes "cod = [] \<or> filtro_codigo df cod = []"
      and "r \<in> set df" and "uf r = u" and "nome_mun r = m"
  shows "\<exists>x xs. filter (\<lambda>r. nome_mun r = m) (filter (\<lambda>r. uf r = u) df) = x # xs
           \<and> sidebar df cod u m = \<lparr>municipio = m, uf_var = u, df_fil_mun = x # xs\<rparr>
           \<and> iloc0 (df_fil_mun (sidebar df cod u m)) = Inr x
           \<and> x \<in> set df \<and> uf x = u \<and> nome_mun x = m
           \<and> ((\<forall>r'\<in>set df. uf r' = u \<and> nome_mun r' = m \<longrightarrow> r' = r) \<longrightarrow> x = r)"
proof -
  from assms(2-4) have "r \<in> set (filtro_nome df u m)"
    by (simp only: filtro_nome_mem)
  then obtain x xs where sel: "filtro_nome df u m = x # xs"
    by (cases "filtro_nome df u m") auto
  then have "x \<in> set (filtro_nome df u m)" by simp
  then have x: "x \<in> set df \<and> uf x = u \<and> nome_mun x = m"
    by (simp only: filtro_nome_mem)
  have sb: "sidebar df cod u m = \<lparr>municipio = m, uf_var = u, df_fil_mun = x # xs\<rparr>"
    using sidebar_nome [OF assms(1), of u m] sel by simp
  then have il: "iloc0 (df_fil_mun (sidebar df cod u m)) = Inr x" by simp
  from sel have two: "filter (\<lambda>r. nome_mun r = m) (filter (\<lambda>r. uf r = u) df) = x # xs"
    by (simp only: filtro_nome_def Let_def)
  from x have "(\<forall>r'\<in>set df. uf r' = u \<and> nome_mun r' = m \<longrightarrow> r' = r) \<longrightarrow> x = r"
    by blast
  with two sb il x show ?thesis by blast
qed

theorem fallback_por_nome_witness:
  "('''' = [] \<or> filtro_codigo tabela_exemplo '''' = [])
   \<and> m003 \<in> set tabela_exemplo \<and> uf m003 = ''RJ'' \<and> nome_mun m003 = ''C''
   \<and> sidebar tabela_exemplo '''' ''RJ'' ''C'' =
        \<lparr>municipio = ''C'', uf_var = ''RJ'', df_fil_mun = [m003]\<rparr>
   \<and> iloc0 (df_fil_mun (sidebar tabela_exemplo '''' ''RJ'' ''C'')) = Inr m003"
proof -
  have h1: "'''' = [] \<or> filtro_codigo tabela_exemplo '''' = []" by simp
  have h2: "m003 \<in> set tabela_exemplo" by (simp add: tabela_exemplo_def)
  have h3: "uf m003 = ''RJ''" and h4: "nome_mun m003 = ''C''" by (simp_all add: m003_def)
  from fallback_por_nome [OF h1 h2 h3 h4] obtain x xs
    where f: "filter (\<lambda>r. nome_mun r = ''C'') (filter (\<lambda>r. uf r = ''RJ'') tabela_exemplo)
                = x # xs"
      and sb: "sidebar tabela_exemplo '''' ''RJ'' ''C'' =
                 \<lparr>municipio = ''C'', uf_var = ''RJ'', df_fil_mun = x # xs\<rparr>"
      and il: "iloc0 (df_fil_mun (sidebar tabela_exemplo '''' ''RJ'' ''C'')) = Inr x"
    by blast
  have "filter (\<lambda>r. nome_mun r = ''C'') (filter (\<lambda>r. uf r = ''RJ'') tabela_exemplo) = [m003]"
    by (simp add: exemplo_defs)
  with f have "x = m003" and "xs = []" by simp_all
  with sb il h1 h2 h3 h4 show ?thesis by simp
qed

text \<open>
  Claim C10: on the second path, when two or more rows of the state chosen carry the name
  chosen, the sidebar keeps them all and nothing reports it; the first of them is the
  municipality: the fleet comparison shows its counts and takes its bracket, and so do
  the mortality and well-being comparisons.
\<close>

theorem nome_repetido_usa_o_primeiro:
  assumes "cod = [] \<or> filtro_codigo df cod = []"
      and "2 \<le> length (filtro_nome df u m)"
  shows "\<exists>x xs. filter (\<lambda>r. nome_mun r = m) (filter (\<lambda>r. uf r = u) df) = x # xs
           \<and> xs \<noteq> []
           \<and> sidebar df cod u m = \<lparr>municipio = m, uf_var = u, df_fil_mun = x # xs\<rparr>
           \<and> iloc0 (df_fil_mun (sidebar df cod u m)) = Inr x
           \<and> niveis df (sidebar df cod u m) =
               and_then (df_sum (faixa_subset df x)) (\<lambda>fx.
               and_then (df_sum (filter (\<lambda>r. uf r = u) df)) (\<lambda>es.
               and_then (df_sum df) (\<lambda>br.
                 Inr [(''Municipio'', frota x), (''Faixa Populacional'', fx),
                      (''Estado'', es), (''Brasil'', br)])))
           \<and> dados_media parse col df (sidebar df cod u m) =
               Inr [col x, media parse col (faixa_subset df x),
                    media parse col (filter (\<lambda>r. uf r = u) df), media parse col df]"
proof -
  from assms(2) obtain x y ys where sel: "filtro_nome df u m = x # y # ys"
    using two_or_more by blast
  have sb: "sidebar df cod u m = \<lparr>municipio = m, uf_var = u, df_fil_mun = x # y # ys\<rparr>"
    using sidebar_nome [OF assms(1), of u m] sel by simp
  from sel have two: "filter (\<lambda>r. nome_mun r = m) (filter (\<lambda>r. uf r = u) df) = x # y # ys"
    by (simp only: filtro_nome_def Let_def)
  have "niveis df (sidebar df cod u m) =
               and_then (df_sum (faixa_subset df x)) (\<lambda>fx.
               and_then (df_sum (filter (\<lambda>r. uf r = u) df)) (\<lambda>es.
               and_then (df_sum df) (\<lambda>br.
                 Inr [(''Municipio'', frota x), (''Faixa Populacional'', fx),
                      (''Estado'', es), (''Brasil'', br)])))"
    by (simp add: sb niveis_def estado_subset_def)
  moreover have "dados_media parse col df (sidebar df cod u m) =
               Inr [col x, media parse col (faixa_subset df x),
                    media parse col (filter (\<lambda>r. uf r = u) df), media parse col df]"
    by (simp add: sb dados_media_def estado_subset_def)
  moreover have "iloc0 (df_fil_mun (sidebar df cod u m)) = Inr x"
    by (simp add: sb)
  moreover have "y # ys \<noteq> []" by simp
  ultimately show ?thesis using two sb by blast
qed

theorem nome_repetido_usa_o_primeiro_witness:
  "('''' = [] \<or> filtro_codigo tabela_nome_repetido '''' = [])
   \<and> 2 \<le> length (filtro_nome tabela_nome_repetido ''SP'' ''A'')
   \<and> iloc0 (df_fil_mun (sidebar tabela_nome_repetido '''' ''SP'' ''A'')) = Inr n1
   \<and> niveis tabela_nome_repetido (sidebar tabela_nome_repetido '''' ''SP'' ''A'') =
       Inr [(''Municipio'', [Num 100, Num 50, Num 10]),
            (''Faixa Populacional'', [Num 100, Num 50, Num 10]),
            (''Estado'', [Num 400, Num 150, Num 60]), (''Brasil'', [Num 400, Num 150, Num 60])]
   \<and> dados_media (\<lambda>s. None) ibeu tabela_nome_repetido
         (sidebar tabela_nome_repetido '''' ''SP'' ''A'') =
       Inr [Num 1, Num 1, Num (1 / 2), Num (1 / 2)]"
proof -
  have h1: "'''' = [] \<or> filtro_codigo tabela_nome_repetido '''' = []" by simp
  have h2: "2 \<le> length (filtro_nome tabela_nome_repetido ''SP'' ''A'')"
    by (simp add: sel_nome_repetido)
  from nome_repetido_usa_o_primeiro [OF h1 h2, of "\<lambda>s. None" ibeu] obtain x xs
    where f: "filter (\<lambda>r. nome_mun r = ''A'') (filter (\<lambda>r. uf r = ''SP'') tabela_nome_repetido)
                = x # xs"
      and il: "iloc0 (df_fil_mun (sidebar tabela_nome_repetido '''' ''SP'' ''A'')) = Inr x"
      and nv: "niveis tabela_nome_repetido (sidebar tabela_nome_repetido '''' ''SP'' ''A'') =
        and_then (df_sum (faixa_subset tabela_nome_repetido x)) (\<lambda>fx.
        and_then (df_sum (filter (\<lambda>r. uf r = ''SP'') tabela_nome_repetido)) (\<lambda>es.
        and_then (df_sum tabela_nome_repetido) (\<lambda>br.
          Inr [(''Municipio'', frota x), (''Faixa Populacional'', fx),
               (''Estado'', es), (''Brasil'', br)])))"
      and dm: "dados_media (\<lambda>s. None) ibeu tabela_nome_repetido
          (sidebar tabela_nome_repetido '''' ''SP'' ''A'') =
        Inr [ibeu x, media (\<lambda>s. None) ibeu (faixa_subset tabela_nome_repetido x),
             media (\<lambda>s. None) ibeu (filter (\<lambda>r. uf r = ''SP'') tabela_nome_repetido),
             media (\<lambda>s. None) ibeu tabela_nome_repetido]"
    by blast
  have "filter (\<lambda>r. nome_mun r = ''A'') (filter (\<lambda>r. uf r = ''SP'') tabela_nome_repetido)
      = [n1, n2]"
    by (simp add: tabela_nome_repetido_def n1_def n2_def)
  with f have "x = n1" by simp
  with il nv dm
  have "iloc0 (df_fil_mun (sidebar tabela_nome_repetido '''' ''SP'' ''A'')) = Inr n1
    \<and> niveis tabela_nome_repetido (sidebar tabela_nome_repetido '''' ''SP'' ''A'') =
        and_then (df_sum (faixa_subset tabela_nome_repetido n1)) (\<lambda>fx.
        and_then (df_sum (filter (\<lambda>r. uf r = ''SP'') tabela_nome_repetido)) (\<lambda>es.
        and_then (df_sum tabela_nome_repetido) (\<lambda>br.
          Inr [(''Municipio'', frota n1), (''Faixa Populacional'', fx),
               (''Estado'', es), (''Brasil'', br)])))
    \<and> dados_media (\<lambda>s. None) ibeu tabela_nome_repetido
          (sidebar tabela_nome_repetido '''' ''SP'' ''A'') =
        Inr [ibeu n1, media (\<lambda>s. None) ibeu (faixa_subset tabela_nome_repetido n1),
             media (\<lambda>s. None) ibeu (filter (\<lambda>r. uf r = ''SP'') tabela_nome_repetido),
             media (\<lambda>s. None) ibeu tabela_nome_repetido]"
    by simp
  then show ?thesis using h1 h2
    by (simp add: df_sum_def series_sum_def is_text_def frota_def media_def series_mean_def
        of_mean_def List.map_filter_def faixa_subset_def tabela_nome_repetido_def n1_def n2_def)
qed

section \<open>The scopes\<close>

text \<open>
  Claim C8: for the municipality resolved, the bracket scope is every row of the whole
  table whose bracket is the municipality's (no row when the municipality has no
  bracket, since a null compares unequal), the state scope is every row whose state is
  the municipality's, and the country scope is the whole table.  These are the subsets
  that the fleet sums and the means are taken over.
\<close>

theorem escopos_do_municipio:
  assumes "iloc0 (df_fil_mun (sidebar df cod u m)) = Inr rec"
  shows "rec \<in> set df
     \<and> faixa_subset df rec =
         (case faixa_pop_2022 rec of None \<Rightarrow> []
          | Some b \<Rightarrow> filter (\<lambda>r. faixa_pop_2022 r = Some b) df)
     \<and> estado_subset df (sidebar df cod u m) = filter (\<lambda>r. uf r = uf rec) df
     \<and> niveis df (sidebar df cod u m) =
         and_then (df_sum (faixa_subset df rec)) (\<lambda>fx.
         and_then (df_sum (filter (\<lambda>r. uf r = uf rec) df)) (\<lambda>es.
         and_then (df_sum df) (\<lambda>br.
           Inr [(''Municipio'', frota rec), (''Faixa Populacional'', fx),
                (''Estado'', es), (''Brasil'', br)])))
     \<and> dados_media parse col df (sidebar df cod u m) =
         Inr [col rec, media parse col (faixa_subset df rec),
              media parse col (filter (\<lambda>r. uf r = uf rec) df), media parse col df]"
proof -
  from sidebar_resolvido [OF assms]
  have mem: "rec \<in> set df" and uf: "uf_var (sidebar df cod u m) = uf rec" by simp_all
  have es: "estado_subset df (sidebar df cod u m) = filter (\<lambda>r. uf r = uf rec) df"
    by (simp add: estado_subset_def uf)
  have nv: "niveis df (sidebar df cod u m) =
         and_then (df_sum (faixa_subset df rec)) (\<lambda>fx.
         and_then (df_sum (filter (\<lambda>r. uf r = uf rec) df)) (\<lambda>es.
         and_then (df_sum df) (\<lambda>br.
           Inr [(''Municipio'', frota rec), (''Faixa Populacional'', fx),
                (''Estado'', es), (''Brasil'', br)])))"
    by (simp add: niveis_def assms es)
  have dm: "dados_media parse col df (sidebar df cod u m) =
         Inr [col rec, media parse col (faixa_subset df rec),
              media parse col (filter (\<lambda>r. uf r = uf rec) df), media parse col df]"
    by (simp add: dados_media_def assms es)
  from mem faixa_subset_cases es nv dm show ?thesis by blast
qed

theorem escopos_do_municipio_witness:
  "iloc0 (df_fil_mun (sidebar tabela_exemplo ''002'' ''RJ'' ''C'')) = Inr m002
   \<and> faixa_subset tabela_exemplo m002 = [m001, m002]
   \<and> estado_subset tabela_exemplo (sidebar tabela_exemplo ''002'' ''RJ'' ''C'') = [m001, m002]
   \<and> niveis tabela_exemplo (sidebar tabela_exemplo ''002'' ''RJ'' ''C'') =
       Inr [(''Municipio'', [Num 200, Num 0, Num 0]),
            (''Faixa Populacional'', [Num 300, Num 50, Num 10]),
            (''Estado'', [Num 300, Num 50, Num 10]), (''Brasil'', [Num 600, Num 150, Num 60])]"
proof -
  have h: "iloc0 (df_fil_mun (sidebar tabela_exemplo ''002'' ''RJ'' ''C'')) = Inr m002"
    by (simp add: sidebar_002)
  from escopos_do_municipio [OF h, of "\<lambda>s. None" ibeu]
  have "faixa_subset tabela_exemplo m002 =
         (case faixa_pop_2022 m002 of None \<Rightarrow> []
          | Some b \<Rightarrow> filter (\<lambda>r. faixa_pop_2022 r = Some b) tabela_exemplo)"
    and "estado_subset tabela_exemplo (sidebar tabela_exemplo ''002'' ''RJ'' ''C'') =
          filter (\<lambda>r. uf r = uf m002) tabela_exemplo"
    and "niveis tabela_exemplo (sidebar tabela_exemplo ''002'' ''RJ'' ''C'') =
         and_then (df_sum (faixa_subset tabela_exemplo m002)) (\<lambda>fx.
         and_then (df_sum (filter (\<lambda>r. uf r = uf m002) tabela_exemplo)) (\<lambda>es.
         and_then (df_sum tabela_exemplo) (\<lambda>br.
           Inr [(''Municipio'', frota m002), (''Faixa Populacional'', fx),
                (''Estado'', es), (''Brasil'', br)])))"
    by simp_all
  with h show ?thesis
    by (simp add: df_sum_def series_sum_def is_text_def frota_def exemplo_defs)
qed

section \<open>The scenario of the specification\<close>

text \<open>
  Claim C5: in the table of the three municipalities 001, 002 and 003, the code 002
  resolves to the second one; its bracket and its state both hold 001 and 002; and the
  share of cars is 200/200 = 1 for the municipality, 300/360 for the bracket and for the
  state, and 600/810 for the country.
\<close>

theorem cenario_002:
  "iloc0 (df_fil_mun (sidebar tabela_exemplo ''002'' u m)) = Inr m002
   \<and> faixa_subset tabela_exemplo m002 = [m001, m002]
   \<and> estado_subset tabela_exemplo (sidebar tabela_exemplo ''002'' u m) = [m001, m002]
   \<and> comparativo_frota tabela_exemplo (sidebar tabela_exemplo ''002'' u m) = Inr (Some
       [\<lparr>nivel = ''Municipio'', tipo = ''Automoveis'', quantidade = Num 200,
         participacao = Fin 1\<rparr>,
        \<lparr>nivel = ''Municipio'', tipo = ''Motocicletas'', quantidade = Num 0,
         participacao = Fin 0\<rparr>,
        \<lparr>nivel = ''Municipio'', tipo = ''Outros Veiculos'', quantidade = Num 0,
         participacao = Fin 0\<rparr>,
        \<lparr>nivel = ''Faixa Populacional'', tipo = ''Automoveis'', quantidade = Num 300,
         participacao = Fin (300 / 360)\<rparr>,
        \<lparr>nivel = ''Faixa Populacional'', tipo = ''Motocicletas'', quantidade = Num 50,
         participacao = Fin (50 / 360)\<rparr>,
        \<lparr>nivel = ''Faixa Populacional'', tipo = ''Outros Veiculos'', quantidade = Num 10,
         participacao = Fin (10 / 360)\<rparr>,
        \<lparr>nivel = ''Estado'', tipo = ''Automoveis'', quantidade = Num 300,
         participacao = Fin (300 / 360)\<rparr>,
        \<lparr>nivel = ''Estado'', tipo = ''Motocicletas'', quantidade = Num 50,
         participacao = Fin (50 / 360)\<rparr>,
        \<lparr>nivel = ''Estado'', tipo = ''Outros Veiculos'', quantidade = Num 10,
         participacao = Fin (10 / 360)\<rparr>,
        \<lparr>nivel = ''Brasil'', tipo = ''Automoveis'', quantidade = Num 600,
         participacao = Fin (600 / 810)\<rparr>,
        \<lparr>nivel = ''Brasil'', tipo = ''Motocicletas'', quantidade = Num 150,
         participacao = Fin (150 / 810)\<rparr>,
        \<lparr>nivel = ''Brasil'', tipo = ''Outros Veiculos'', quantidade = Num 60,
         participacao = Fin (60 / 810)\<rparr>])"
  by (simp add: sidebar_002) (simp add: frota_eval exemplo_defs)

section \<open>Sums and means with a null among the values\<close>

text \<open>
  Claim C4: over the values 10, null and 20 the sum is 30 and the mean is 15, not 10.
  The three rows of \<open>tabela_10_nulo_20\<close> form one bracket with exactly these car counts
  and mortality rates; the fleet comparison gives 30 for the bracket and the mortality
  comparison gives 15.
\<close>

theorem soma_30_media_15:
  "series_sum [Num 10, Null, Num 20] = Inr 30
   \<and> series_mean [Some 10, None, Some 20] = Some 15
   \<and> series_mean [Some 10, None, Some 20] \<noteq> Some 10
   \<and> map auto_2023 (faixa_subset tabela_10_nulo_20 v10) = [Num 10, Null, Num 20]
   \<and> map tx_mortalidade_100mil_hab (faixa_subset tabela_10_nulo_20 v10) = [Num 10, Null, Num 20]
   \<and> niveis tabela_10_nulo_20 (sidebar tabela_10_nulo_20 ''10'' u m) =
       Inr [(''Municipio'', [Num 10, Num 1, Num 1]),
            (''Faixa Populacional'', [Num 30, Num 3, Num 3]),
            (''Estado'', [Num 30, Num 3, Num 3]), (''Brasil'', [Num 30, Num 3, Num 3])]
   \<and> dados_mortalidade parse tabela_10_nulo_20 (sidebar tabela_10_nulo_20 ''10'' u m) =
       Inr [Num 10, Num 15, Num 15, Num 15]"
  by (simp add: sidebar_eval frota_eval media_eval t10_defs)

section \<open>Empty scopes\<close>

text \<open>
  Claim C2 says that every metric of an empty scope is null, a sum included.  The
  municipality \<open>s1\<close> has no bracket, so its bracket scope is empty; the fleet comparison
  shows the sums 0, 0 and 0 for it, not nulls.
\<close>

theorem escopo_vazio_counterexample:
  "iloc0 (df_fil_mun (sidebar tabela_sem_faixa ''201'' ''SP'' ''B'')) = Inr s1
   \<and> faixa_subset tabela_sem_faixa s1 = []
   \<and> niveis tabela_sem_faixa (sidebar tabela_sem_faixa ''201'' ''SP'' ''B'') =
       Inr [(''Municipio'', [Num 100, Num 50, Num 10]),
            (''Faixa Populacional'', [Num 0, Num 0, Num 0]),
            (''Estado'', [Num 400, Num 150, Num 60]), (''Brasil'', [Num 400, Num 150, Num 60])]
   \<and> Num 0 \<noteq> Null"
proof -
  have "iloc0 (df_fil_mun (sidebar tabela_sem_faixa ''201'' ''SP'' ''B'')) = Inr s1"
    by (simp add: sidebar_201)
  moreover have "faixa_subset tabela_sem_faixa s1 = []"
    by (simp add: faixa_subset_def s1_def tabela_sem_faixa_def s2_def)
  ultimately show ?thesis by (simp add: niveis_sem_faixa)
qed

text \<open>
  Claim C2, amended: over an empty scope the mean of a rate column is null and the three
  fleet sums are zero, as they are over a scope that is not empty and whose fleet cells
  are all null; nothing is raised.  A municipality without a bracket has an empty
  bracket scope: the fleet comparison shows the sums 0, 0, 0 for it, with shares that
  are null, and the comparison of means shows a null.
\<close>

theorem escopo_vazio:
  "(sub = [] \<longrightarrow> df_sum sub = Inr [Num 0, Num 0, Num 0] \<and> media parse col sub = Null)
   \<and> (sub \<noteq> [] \<and> (\<forall>r\<in>set sub. frota r = [Null, Null, Null]) \<longrightarrow>
         df_sum sub = Inr [Num 0, Num 0, Num 0])
   \<and> (iloc0 (df_fil_mun st) = Inr rec \<and> faixa_pop_2022 rec = None \<longrightarrow>
         faixa_subset df rec = []
         \<and> (\<forall>ns. niveis df st = Inr ns \<longrightarrow>
               ns ! 1 = (''Faixa Populacional'', [Num 0, Num 0, Num 0]))
         \<and> (\<exists>es. linhas_nivel (colunas_objeto df) ''Faixa Populacional''
                   [Num 0, Num 0, Num 0] = Inr es
               \<and> map participacao es = [NaN, NaN, NaN])
         \<and> (\<exists>x y z. dados_media parse col df st = Inr [x, Null, y, z]))"
proof -
  have vazio: "df_sum sub = Inr [Num 0, Num 0, Num 0] \<and> media parse col sub = Null"
    if "sub = []"
    using that
    by (simp add: df_sum_def series_sum_def media_def series_mean_def of_mean_def
        List.map_filter_def)
  have nulos: "df_sum sub = Inr [Num 0, Num 0, Num 0]"
    if a: "sub \<noteq> [] \<and> (\<forall>r\<in>set sub. frota r = [Null, Null, Null])"
  proof -
    from a have "series_sum (map auto_2023 sub) = Inr 0"
      and "series_sum (map moto_2023 sub) = Inr 0"
      and "series_sum (map outr_veic_2023 sub) = Inr 0"
      by (auto intro!: series_sum_nulos simp add: frota_def)
    then show ?thesis by (simp add: df_sum_def)
  qed
  have faixa: "faixa_subset df rec = []
         \<and> (\<forall>ns. niveis df st = Inr ns \<longrightarrow>
               ns ! 1 = (''Faixa Populacional'', [Num 0, Num 0, Num 0]))
         \<and> (\<exists>es. linhas_nivel (colunas_objeto df) ''Faixa Populacional''
                   [Num 0, Num 0, Num 0] = Inr es
               \<and> map participacao es = [NaN, NaN, NaN])
         \<and> (\<exists>x y z. dados_media parse col df st = Inr [x, Null, y, z])"
    if a: "iloc0 (df_fil_mun st) = Inr rec \<and> faixa_pop_2022 rec = None"
  proof -
    from a have e: "faixa_subset df rec = []"
      by (simp add: faixa_subset_cases)
    from a e have "\<forall>ns. niveis df st = Inr ns \<longrightarrow>
               ns ! 1 = (''Faixa Populacional'', [Num 0, Num 0, Num 0])"
      by (auto simp add: niveis_def and_then_Inr df_sum_def series_sum_def)
    moreover from a e have "\<exists>x y z. dados_media parse col df st = Inr [x, Null, y, z]"
      by (simp add: dados_media_def media_def series_mean_def of_mean_def List.map_filter_def)
    moreover have "\<exists>es. linhas_nivel (colunas_objeto df) ''Faixa Populacional''
                   [Num 0, Num 0, Num 0] = Inr es
               \<and> map participacao es = [NaN, NaN, NaN]"
      by (simp add: colunas_objeto_tres linhas_faixa_vazia)
    ultimately show ?thesis using e by blast
  qed
  from vazio nulos faixa show ?thesis by blast
qed

theorem escopo_vazio_witness:
  "df_sum [] = Inr [Num 0, Num 0, Num 0] \<and> media (\<lambda>s. None) ibeu [] = Null
   \<and> [s3] \<noteq> [] \<and> list_all (\<lambda>r. frota r = [Null, Null, Null]) [s3]
   \<and> df_sum [s3] = Inr [Num 0, Num 0, Num 0]
   \<and> iloc0 (df_fil_mun (sidebar tabela_sem_faixa ''201'' ''SP'' ''B'')) = Inr s1
   \<and> faixa_pop_2022 s1 = None
   \<and> faixa_subset tabela_sem_faixa s1 = []
   \<and> dados_media (\<lambda>s. None) ibeu tabela_sem_faixa
        (sidebar tabela_sem_faixa ''201'' ''SP'' ''B'')
       = Inr [Num 1, Null, Num (1 / 2), Num (1 / 2)]"
proof -
  have h1: "[s3] \<noteq> [] \<and> (\<forall>r\<in>set [s3]. frota r = [Null, Null, Null])"
    by (simp add: frota_def s3_def)
  have h2: "iloc0 (df_fil_mun (sidebar tabela_sem_faixa ''201'' ''SP'' ''B'')) = Inr s1
      \<and> faixa_pop_2022 s1 = None"
    by (simp add: sidebar_201) (simp add: s1_def)
  note w = escopo_vazio [of "[]" "\<lambda>s. None" ibeu]
  note w3 = escopo_vazio [of "[s3]" "\<lambda>s. None" ibeu
      "sidebar tabela_sem_faixa ''201'' ''SP'' ''B''" s1 tabela_sem_faixa]
  from w have c1: "df_sum [] = Inr [Num 0, Num 0, Num 0] \<and> media (\<lambda>s. None) ibeu [] = Null"
    by blast
  from w3 h1 have c2: "df_sum [s3] = Inr [Num 0, Num 0, Num 0]" by blast
  from w3 h2 have c3: "faixa_subset tabela_sem_faixa s1 = []" by blast
  have c4: "dados_media (\<lambda>s. None) ibeu tabela_sem_faixa
        (sidebar tabela_sem_faixa ''201'' ''SP'' ''B'')
       = Inr [Num 1, Null, Num (1 / 2), Num (1 / 2)]"
    by (simp add: sidebar_201)
       (simp add: media_eval faixa_subset_def estado_subset_def
          tabela_sem_faixa_def s1_def s2_def)
  from c1 c2 c3 c4 h1 h2 show ?thesis by (simp add: list_all_iff)
qed

section \<open>Shares of the fleet\<close>

text \<open>
  What the fleet comparison gives for a level when it gets as far as dividing, with \<open>tot\<close>
  the total of the level and no count below zero: the share of a number is the number
  divided by \<open>tot\<close> when \<open>tot\<close> is not zero; the share of a null of a numpy column is null;
  every share is null when \<open>tot\<close> is zero; and when \<open>tot\<close> is not zero the shares that are
  not null add up to exactly 1 (the numbers of the model are reals).
\<close>

lemma participacao_sem_negativos:
  assumes "niveis df st = Inr ns" and "(nv, valores) \<in> set ns"
      and "linhas_nivel (colunas_objeto df) nv valores = Inr es"
      and "series_sum valores = Inr tot"
      and "\<forall>c\<in>set valores. 0 \<le> addend c"
  shows "map quantidade es = valores"
    and "\<forall>e\<in>set es. \<forall>q. quantidade e = Num q \<and> tot \<noteq> 0 \<longrightarrow> participacao e = Fin (q / tot)"
    and "\<forall>e\<in>set es. quantidade e = Null \<longrightarrow> participacao e = NaN"
    and "tot = 0 \<longrightarrow> (\<forall>e\<in>set es. participacao e = NaN)"
    and "tot \<noteq> 0 \<longrightarrow> sum_list (map (\<lambda>e. parcela (participacao e)) es) = 1"
proof -
  from niveis_tres [OF assms(1,2)] obtain a b c where v: "valores = [a, b, c]" by blast
  let ?oa = "coluna_objeto df auto_2023" and ?ob = "coluna_objeto df moto_2023"
    and ?oc = "coluna_objeto df outr_veic_2023"
  from assms(3,4) v obtain pa pb pc where
    tot: "series_sum [a, b, c] = Inr tot" and
    pa: "np_div ?oa a tot = Inr pa" and pb: "np_div ?ob b tot = Inr pb" and
    pc: "np_div ?oc c tot = Inr pc" and
    es: "es = [\<lparr>nivel = nv, tipo = ''Automoveis'', quantidade = a, participacao = pa\<rparr>,
               \<lparr>nivel = nv, tipo = ''Motocicletas'', quantidade = b, participacao = pb\<rparr>,
               \<lparr>nivel = nv, tipo = ''Outros Veiculos'', quantidade = c, participacao = pc\<rparr>]"
    by (auto simp add: colunas_objeto_tres linhas_nivel_tres)
  from tot have sum: "tot = addend a + addend b + addend c" by (simp add: series_sum_Inr)
  show "map quantidade es = valores" by (simp add: es v)
  show "\<forall>e\<in>set es. \<forall>q. quantidade e = Num q \<and> tot \<noteq> 0 \<longrightarrow> participacao e = Fin (q / tot)"
    using np_div_valor(1) [OF pa] np_div_valor(1) [OF pb] np_div_valor(1) [OF pc]
    by (simp add: es)
  show "\<forall>e\<in>set es. quantidade e = Null \<longrightarrow> participacao e = NaN"
    using np_div_valor(2) [OF pa] np_div_valor(2) [OF pb] np_div_valor(2) [OF pc]
    by (simp add: es)
  show "tot = 0 \<longrightarrow> (\<forall>e\<in>set es. participacao e = NaN)"
  proof
    assume z: "tot = 0"
    with assms(5) v sum have "addend a = 0 \<and> addend b = 0 \<and> addend c = 0"
      using addend_zero3 [of a b c] by simp
    with z pa pb pc have "pa = NaN \<and> pb = NaN \<and> pc = NaN"
      using np_div_sem_sobra by blast
    then show "\<forall>e\<in>set es. participacao e = NaN" by (simp add: es)
  qed
  show "tot \<noteq> 0 \<longrightarrow> sum_list (map (\<lambda>e. parcela (participacao e)) es) = 1"
  proof
    assume nz: "tot \<noteq> 0"
    have "sum_list (map (\<lambda>e. parcela (participacao e)) es)
        = addend a / tot + addend b / tot + addend c / tot"
      by (simp add: es np_div_parcela(1) [OF pa nz] np_div_parcela(1) [OF pb nz]
          np_div_parcela(1) [OF pc nz])
    also have "\<dots> = (addend a + addend b + addend c) / tot"
      by (simp add: add_divide_distrib)
    also have "\<dots> = 1" using nz sum by simp
    finally show "sum_list (map (\<lambda>e. parcela (participacao e)) es) = 1" .
  qed
qed

text \<open>
  Claim C3 says that a share is the count divided by the total of its scope and is null
  whenever that total is zero.  In the table of the one municipality 203 the three fleet
  columns are null in every row, so pandas keeps them as columns of objects and the
  municipality's counts are \<^verbatim>\<open>None\<close>.  The total of the municipality is 0; the first
  share is \<^verbatim>\<open>None / 0\<close>, which raises \<^verbatim>\<open>TypeError\<close>: no share is computed, null or not,
  nothing catches the exception, and no page is built.
\<close>

theorem frota_nula_sem_participacao:
  "iloc0 (df_fil_mun (sidebar tabela_frota_nula ''203'' u m)) = Inr s3
   \<and> colunas_objeto tabela_frota_nula = [True, True, True]
   \<and> niveis tabela_frota_nula (sidebar tabela_frota_nula ''203'' u m) =
       Inr [(''Municipio'', [Null, Null, Null]),
            (''Faixa Populacional'', [Num 0, Num 0, Num 0]),
            (''Estado'', [Num 0, Num 0, Num 0]), (''Brasil'', [Num 0, Num 0, Num 0])]
   \<and> series_sum [Null, Null, Null] = Inr 0
   \<and> linhas_nivel (colunas_objeto tabela_frota_nula) ''Municipio'' [Null, Null, Null]
        = Inl TypeError
   \<and> comparativo_frota tabela_frota_nula (sidebar tabela_frota_nula ''203'' u m)
        = Inl TypeError
   \<and> main parse tabela_frota_nula ''203'' u m = Inl TypeError"
proof -
  have il: "iloc0 (df_fil_mun (sidebar tabela_frota_nula ''203'' u m)) = Inr s3"
    by (simp add: sidebar_203)
  have co: "colunas_objeto tabela_frota_nula = [True, True, True]"
    by (simp add: colunas_objeto_def coluna_objeto_def is_num_def is_text_def
        tabela_frota_nula_def s3_def)
  have nv: "niveis tabela_frota_nula (sidebar tabela_frota_nula ''203'' u m) =
       Inr [(''Municipio'', [Null, Null, Null]),
            (''Faixa Populacional'', [Num 0, Num 0, Num 0]),
            (''Estado'', [Num 0, Num 0, Num 0]), (''Brasil'', [Num 0, Num 0, Num 0])]"
    by (simp add: sidebar_203) (simp add: niveis_eval tabela_frota_nula_def s3_def)
  have ss: "series_sum [Null, Null, Null] = Inr 0"
    by (simp add: series_sum_def is_text_def)
  have ln: "linhas_nivel (colunas_objeto tabela_frota_nula) ''Municipio'' [Null, Null, Null]
        = Inl TypeError"
    by (simp add: co linhas_nivel_def tipos_def ss)
  have ne: "tabela_frota_nula \<noteq> []"
    by (simp add: tabela_frota_nula_def)
  have cf: "comparativo_frota tabela_frota_nula (sidebar tabela_frota_nula ''203'' u m)
        = Inl TypeError"
    using ne by (simp add: comparativo_frota_def nv ln) (simp add: sidebar_203)
  have "main parse tabela_frota_nula ''203'' u m = Inl TypeError"
    using ne by (simp add: main_def Let_def cf)
  with il co nv ss ln cf show ?thesis by simp
qed

text \<open>
  Claim C9 says that the shares of a scope add up to 1 whenever its total is not zero.
  In the table of the one municipality 204 the car column is null in every row, a column
  of objects, beside 50 motorcycles and 10 other vehicles.  The total of the municipality
  is 60; the share of cars is \<^verbatim>\<open>None / 60\<close>, which raises \<^verbatim>\<open>TypeError\<close>: there are no
  shares to add up, and no page is built.
\<close>

theorem coluna_nula_sem_participacao:
  "iloc0 (df_fil_mun (sidebar tabela_coluna_nula ''204'' u m)) = Inr s4
   \<and> colunas_objeto tabela_coluna_nula = [True, False, False]
   \<and> niveis tabela_coluna_nula (sidebar tabela_coluna_nula ''204'' u m) =
       Inr [(''Municipio'', [Null, Num 50, Num 10]),
            (''Faixa Populacional'', [Num 0, Num 50, Num 10]),
            (''Estado'', [Num 0, Num 50, Num 10]), (''Brasil'', [Num 0, Num 50, Num 10])]
   \<and> series_sum [Null, Num 50, Num 10] = Inr 60
   \<and> linhas_nivel (colunas_objeto tabela_coluna_nula) ''Municipio'' [Null, Num 50, Num 10]
        = Inl TypeError
   \<and> comparativo_frota tabela_coluna_nula (sidebar tabela_coluna_nula ''204'' u m)
        = Inl TypeError
   \<and> main parse tabela_coluna_nula ''204'' u m = Inl TypeError"
proof -
  have il: "iloc0 (df_fil_mun (sidebar tabela_coluna_nula ''204'' u m)) = Inr s4"
    by (simp add: sidebar_204)
  have co: "colunas_objeto tabela_coluna_nula = [True, False, False]"
    by (simp add: colunas_objeto_def coluna_objeto_def is_num_def is_text_def
        tabela_coluna_nula_def s4_def)
  have nv: "niveis tabela_coluna_nula (sidebar tabela_coluna_nula ''204'' u m) =
       Inr [(''Municipio'', [Null, Num 50, Num 10]),
            (''Faixa Populacional'', [Num 0, Num 50, Num 10]),
            (''Estado'', [Num 0, Num 50, Num 10]), (''Brasil'', [Num 0, Num 50, Num 10])]"
    by (simp add: sidebar_204) (simp add: niveis_eval tabela_coluna_nula_def s4_def)
  have ss: "series_sum [Null, Num 50, Num 10] = Inr 60"
    by (simp add: series_sum_def is_text_def)
  have ln: "linhas_nivel (colunas_objeto tabela_coluna_nula) ''Municipio''
        [Null, Num 50, Num 10] = Inl TypeError"
    by (simp add: co linhas_nivel_def tipos_def ss)
  have ne: "tabela_coluna_nula \<noteq> []"
    by (simp add: tabela_coluna_nula_def)
  have cf: "comparativo_frota tabela_coluna_nula (sidebar tabela_coluna_nula ''204'' u m)
        = Inl TypeError"
    using ne by (simp add: comparativo_frota_def nv ln) (simp add: sidebar_204)
  have "main parse tabela_coluna_nula ''204'' u m = Inl TypeError"
    using ne by (simp add: main_def Let_def cf)
  with il co nv ss ln cf show ?thesis by simp
qed

section \<open>Cells that are no numbers\<close>

text \<open>
  The two rate columns are coerced before their means are taken, so a text that is no
  number is left out of a mean, of its sum and of its count alike, and the block of means
  raises nothing for it.
\<close>

lemma media_ignora_texto:
  assumes "col r = Text s" and "parse s = None"
  shows "media parse col (xs @ r # ys) = media parse col (xs @ ys)"
    and "dados_media parse col df st \<noteq> Inl TypeError"
    and "dados_media parse col df st \<noteq> Inl ZeroDivisionError"
  using assms
  by (auto simp add: media_def series_mean_None dados_media_def and_then_Inl
      elim: iloc0.elims)

text \<open>
  Claim C6 asks this of every metric column.  The three fleet columns are summed as they
  arrive: with the text \<open>abc\<close> in the car column of the municipality 401 the fleet block
  raises \<^verbatim>\<open>TypeError\<close>, which nothing catches, and no page is built.  And the municipality's
  own rate is read from the rows cut out before the coercion: with the text \<open>n/d\<close> as the
  mortality rate of the municipality 402, the first value of the mortality comparison is
  that text, not a null.
\<close>

theorem texto_sem_coercao:
  "main (\<lambda>s. None) tabela_texto_frota ''401'' u m = Inl TypeError
   \<and> dados_mortalidade (\<lambda>s. None) tabela_texto_taxa (sidebar tabela_texto_taxa ''402'' u m) =
       Inr [Text ''n/d'', Num 8, Num 8, Num 8]"
proof -
  have "sidebar tabela_texto_frota ''401'' u m =
      \<lparr>municipio = ''A'', uf_var = ''SP'', df_fil_mun = [t1]\<rparr>"
    by (simp add: sidebar_eval tabela_texto_frota_def t1_def)
  then have "main (\<lambda>s. None) tabela_texto_frota ''401'' u m = Inl TypeError"
    by (simp add: main_def Let_def comparativo_frota_def niveis_eval
        tabela_texto_frota_def t1_def)
  moreover have "sidebar tabela_texto_taxa ''402'' u m =
      \<lparr>municipio = ''A'', uf_var = ''SP'', df_fil_mun = [t2]\<rparr>"
    by (simp add: sidebar_eval tabela_texto_taxa_def t2_def t3_def)
  then have "dados_mortalidade (\<lambda>s. None) tabela_texto_taxa
        (sidebar tabela_texto_taxa ''402'' u m) = Inr [Text ''n/d'', Num 8, Num 8, Num 8]"
    by (simp add: media_eval faixa_subset_def estado_subset_def
        tabela_texto_taxa_def t2_def t3_def)
  ultimately show ?thesis by simp
qed

end
